theory Spec2Isabelle
  imports Main "HOL-Library.Word" "HOL-Library.Sublist" "HOL-Library.Product_Lexorder"
begin

section \<open>TranslucentTB: the Application class (application.cpp)\<close>

text \<open>
  The class \<open>Application\<close> talks to its collaborators (configuration manager, startup
  manager, tray window, Xaml thread manager, the Win32 message queue) through calls whose
  results it cannot compute itself. The embedding makes both directions explicit:
  \<^item> every call to a collaborator is an \<open>effect\<close>, appended to a log in program order;
  \<^item> every answer of a collaborator (what \<open>TryClose\<close> returns, which messages
    \<open>PeekMessage\<close> delivers, what the wait call returns) is an input of the function.
\<close>

subsection \<open>Handles, messages and effects\<close>

text \<open>A window handle; \<open>None\<close> is \<open>nullptr\<close>.\<close>

type_synonym HWND = "nat option"

text \<open>
  The Win32 \<open>MSG\<close> structure, with the two fields \<open>Run\<close> reads: \<open>message\<close> (a UINT)
  and \<open>wParam\<close> (a WPARAM, 64 bits on the platforms the program is built for).
\<close>

record MSG =
  message :: "32 word"
  wParam :: "64 word"

text \<open>The dispatcher a coroutine resumes on: that of a Xaml thread, or the main one.\<close>

datatype dispatcher = Thread_dispatcher nat | Main_dispatcher

datatype effect =
    SetPreferredAppMode_AllowDark
  | Startup_AcquireTask
  | co_await_operation
  | co_await_Startup_Enable
  | CreateXamlWindow_WelcomePage
  | Startup_Disable
  | Config_DeleteConfigFile
  | Config_EditConfigFile
  | Config_SaveConfig
  | AppWindow_RemoveHideTrayIconOverride
  | AppWindow_SendNotification_WELCOME
  | OpenUri string string
  | closeRevoker_revoke
  | Shutdown_called int
  | Thread_Lock nat
  | resume_foreground dispatcher
  | Window_TryClose HWND
  | SetForegroundWindow HWND
  | ShutdownQueueAsync
  | PostQuitMessage int
  | PreTranslateMessage MSG
  | TranslateMessage MSG
  | DispatchMessage MSG
  | LastErrorHandle_critical string
  | MessagePrint_critical string

subsection \<open>Shutdown\<close>

text \<open>
  What \<open>Shutdown\<close> sees of a Xaml thread: its current window, if any; whether that
  window has a page (\<open>window->page()\<close>); its handle; and the answer \<open>TryClose\<close> gives
  when it is asked.
\<close>

record xaml_window =
  handle :: HWND
  page :: bool
  TryClose :: bool

record xaml_thread =
  thread_id :: nat
  GetCurrentWindow :: "xaml_window option"

text \<open>
  The body of the \<open>for\<close> loop over \<open>m_Xaml.GetThreads()\<close>: it takes the value of
  \<open>canExit\<close> before the iteration and returns the value after it, with the calls made.
\<close>

definition poll_thread :: "xaml_thread \<Rightarrow> bool \<Rightarrow> bool \<times> effect list" where
  "poll_thread thread canExit =
     (case GetCurrentWindow thread of
        None \<Rightarrow> (canExit, [Thread_Lock (thread_id thread)])
      | Some window \<Rightarrow>
          if page window then
            (if \<not> TryClose window then
               (False,
                [Thread_Lock (thread_id thread),
                 resume_foreground (Thread_dispatcher (thread_id thread)),
                 Window_TryClose (handle window),
                 SetForegroundWindow (handle window)])
             else
               (canExit,
                [Thread_Lock (thread_id thread),
                 resume_foreground (Thread_dispatcher (thread_id thread)),
                 Window_TryClose (handle window)]))
          else (canExit, [Thread_Lock (thread_id thread)]))"

fun poll_threads :: "xaml_thread list \<Rightarrow> bool \<Rightarrow> bool \<times> effect list" where
  "poll_threads [] canExit = (canExit, [])"
| "poll_threads (thread # threads) canExit =
     (case poll_thread thread canExit of
        (canExit', es) \<Rightarrow>
          (case poll_threads threads canExit' of
             (canExit'', es') \<Rightarrow> (canExit'', es @ es')))"

text \<open>
  \<open>Shutdown(exitCode)\<close>, run to the end of the coroutine: the calls it makes, in order.
  The first entry records the call itself.
\<close>

definition Shutdown :: "xaml_thread list \<Rightarrow> int \<Rightarrow> effect list" where
  "Shutdown threads exitCode =
     (case poll_threads threads True of
        (canExit, es) \<Rightarrow>
          Shutdown_called exitCode # es @
          (if canExit then
             [resume_foreground Main_dispatcher, ShutdownQueueAsync, PostQuitMessage exitCode]
           else []))"

text \<open>The windows \<open>Shutdown\<close> asks: the current windows that have a page, in thread order.\<close>

definition polled_windows :: "xaml_thread list \<Rightarrow> xaml_window list" where
  "polled_windows threads =
     filter page (List.map_filter GetCurrentWindow threads)"

text \<open>The handles \<open>TryClose\<close> was called on, and those brought to the foreground.\<close>

fun TryClose_calls :: "effect list \<Rightarrow> HWND list" where
  "TryClose_calls [] = []"
| "TryClose_calls (Window_TryClose h # es) = h # TryClose_calls es"
| "TryClose_calls (e # es) = TryClose_calls es"

fun SetForegroundWindow_calls :: "effect list \<Rightarrow> HWND list" where
  "SetForegroundWindow_calls [] = []"
| "SetForegroundWindow_calls (SetForegroundWindow h # es) = h # SetForegroundWindow_calls es"
| "SetForegroundWindow_calls (e # es) = SetForegroundWindow_calls es"

fun PostQuitMessage_calls :: "effect list \<Rightarrow> int list" where
  "PostQuitMessage_calls [] = []"
| "PostQuitMessage_calls (PostQuitMessage c # es) = c # PostQuitMessage_calls es"
| "PostQuitMessage_calls (e # es) = PostQuitMessage_calls es"

subsection \<open>The main loop\<close>

text \<open>
  Constants of the Windows SDK that \<open>Run\<close> compares against (\<open>WinUser.h\<close>,
  \<open>WinBase.h\<close>): \<open>WM_QUIT\<close> is 0x0012, \<open>WAIT_OBJECT_0\<close> is 0, \<open>WAIT_IO_COMPLETION\<close> is
  0xC0 and \<open>WAIT_FAILED\<close> is 0xFFFFFFFF.
\<close>

definition WM_QUIT :: "32 word" where "WM_QUIT = 0x0012"
definition WAIT_OBJECT_0 :: "32 word" where "WAIT_OBJECT_0 = 0"
definition WAIT_IO_COMPLETION :: "32 word" where "WAIT_IO_COMPLETION = 0xC0"
definition WAIT_FAILED :: "32 word" where "WAIT_FAILED = 0xFFFFFFFF"

text \<open>\<open>static_cast<int>(msg.wParam)\<close>: the low 32 bits, read as two's complement.\<close>

definition int_of_WPARAM :: "64 word \<Rightarrow> int" where
  "int_of_WPARAM w = sint (ucast w :: 32 word)"

text \<open>
  The \<open>for\<close> loop over \<open>PeekMessage\<close>. Its input is the list of messages that
  \<open>PeekMessage\<close> delivers before it returns false, each paired with the answer
  \<open>m_AppWindow.PreTranslateMessage\<close> gives for it (not asked for a quit message). The result
  is the calls made and, when the loop left through \<open>return\<close>, the value returned.
\<close>

fun peek_loop :: "(MSG \<times> bool) list \<Rightarrow> effect list \<times> int option" where
  "peek_loop [] = ([], None)"
| "peek_loop ((msg, consumed) # rest) =
     (if message msg \<noteq> WM_QUIT then
        (case peek_loop rest of
           (es, r) \<Rightarrow>
             ((if \<not> consumed then
                 [PreTranslateMessage msg, TranslateMessage msg, DispatchMessage msg]
               else [PreTranslateMessage msg]) @ es, r))
      else ([], Some (int_of_WPARAM (wParam msg))))"

text \<open>
  Modelled from the spec: the macros \<open>LastErrorHandle\<close> and \<open>MessagePrint\<close> are defined in
  ProgramLog, outside the source under study. The spec describes both calls of the main
  loop as "logged at critical severity but the loop continues rather than crashing", so each
  is one entry of the log, after which control goes on to the next statement.
\<close>

definition LastErrorHandle :: "string \<Rightarrow> effect list" where
  "LastErrorHandle msg = [LastErrorHandle_critical msg]"

definition MessagePrint :: "string \<Rightarrow> effect list" where
  "MessagePrint msg = [MessagePrint_critical msg]"

text \<open>
  One round of the \<open>while (true)\<close> loop is one return of \<open>MsgWaitForMultipleObjectsEx\<close>:
  the value it returns and the messages \<open>PeekMessage\<close> would deliver in that round. The
  wait has no timeout, so when the script of rounds is used up the loop is blocked in the
  wait and \<open>Run\<close> has not returned: the result is \<open>None\<close>.
  The case \<open>WAIT_FAILED\<close> has no \<open>break\<close>: it runs into \<open>default\<close>.
\<close>

fun Run :: "(32 word \<times> (MSG \<times> bool) list) list \<Rightarrow> effect list \<times> int option" where
  "Run [] = ([], None)"
| "Run ((wait, msgs) # rounds) =
     (if wait = WAIT_OBJECT_0 then
        (case peek_loop msgs of
           (es, Some exitCode) \<Rightarrow> (es, Some exitCode)
         | (es, None) \<Rightarrow> (case Run rounds of (es', r) \<Rightarrow> (es @ es', r)))
      else if wait = WAIT_IO_COMPLETION then Run rounds
      else if wait = WAIT_FAILED then
        (case Run rounds of
           (es', r) \<Rightarrow>
             (LastErrorHandle ''Failed to enter alertable wait state!'' @
              MessagePrint ''MsgWaitForMultipleObjectsEx returned an unexpected value!'' @ es',
              r))
      else
        (case Run rounds of
           (es', r) \<Rightarrow>
             (MessagePrint ''MsgWaitForMultipleObjectsEx returned an unexpected value!'' @ es',
              r)))"

text \<open>
  What the spec says is done for one message that is not the quit sentinel: it is offered
  to the pre-translate path, and translated and dispatched only if not consumed.
\<close>

definition spec_message_effects :: "MSG \<times> bool \<Rightarrow> effect list" where
  "spec_message_effects mc =
     PreTranslateMessage (fst mc) #
     (if snd mc then [] else [TranslateMessage (fst mc), DispatchMessage (fst mc)])"

definition is_quit :: "MSG \<times> bool \<Rightarrow> bool" where
  "is_quit mc = (message (fst mc) = WM_QUIT)"

subsection \<open>Dependencies\<close>

text \<open>
  Modelled from the spec: the type \<open>PACKAGE_VERSION\<close> is declared in the Windows SDK and
  the class of \<open>m_UwpCRTDep\<close> and \<open>m_WinUIDep\<close> outside the source under study. The
  constructor only names the four fields and gives their values; the spec calls the version
  "a 4-component ordered tuple" and the third argument the flag that allows the user scope.
\<close>

record PACKAGE_VERSION =
  Revision :: nat
  Build :: nat
  Minor :: nat
  Major :: nat

record DynamicDependency =
  name :: string
  version :: PACKAGE_VERSION
  allowUserScope :: bool

definition m_UwpCRTDep :: "string option \<Rightarrow> DynamicDependency" where
  "m_UwpCRTDep storageFolder =
     \<lparr>name = ''Microsoft.VCLibs.140.00_8wekyb3d8bbwe'',
      version = \<lparr>Revision = 0, Build = 30704, Minor = 0, Major = 14\<rparr>,
      allowUserScope = (storageFolder \<noteq> None)\<rparr>"

definition m_WinUIDep :: "string option \<Rightarrow> DynamicDependency" where
  "m_WinUIDep storageFolder =
     \<lparr>name = ''Microsoft.UI.Xaml.2.7_8wekyb3d8bbwe'',
      version = \<lparr>Revision = 0, Build = 21001, Minor = 2207, Major = 7\<rparr>,
      allowUserScope = (storageFolder \<noteq> None)\<rparr>"

text \<open>
  Modelled from the spec: the test whether an installed version satisfies a descriptor is
  not in the source under study. The spec: "version comparison is lexicographic on (major,
  minor, build, revision); a dependency is satisfied if an installed version \<ge> descriptor
  exists". The comparison is written out field by field, most significant first.
\<close>

definition version_satisfied :: "PACKAGE_VERSION \<Rightarrow> PACKAGE_VERSION \<Rightarrow> bool" where
  "version_satisfied descriptor installed =
     (if Major installed \<noteq> Major descriptor then Major descriptor < Major installed
      else if Minor installed \<noteq> Minor descriptor then Minor descriptor < Minor installed
      else if Build installed \<noteq> Build descriptor then Build descriptor < Build installed
      else Revision descriptor \<le> Revision installed)"

definition version_tuple :: "PACKAGE_VERSION \<Rightarrow> nat \<times> nat \<times> nat \<times> nat" where
  "version_tuple v = (Major v, Minor v, Build v, Revision v)"

subsection \<open>The state of the Application and of its welcome page\<close>

text \<open>
  \<open>CreateWelcomePage\<close> is a coroutine with two suspension points, and the handlers it
  installs run later, on events of the page; what they hand to \<open>DispatchToMainThread\<close>
  runs later still, on the main thread, in the order it was queued. The state keeps what
  is pending:
  \<^item> \<open>m_WelcomePage\<close>, the cached handle (taken to start as \<open>nullptr\<close>);
  \<^item> \<open>frame\<close>, where the coroutine \<open>CreateWelcomePage\<close> stands;
  \<^item> \<open>configure_callback\<close>, the callback given to \<open>CreateXamlWindow\<close> and not yet
    invoked, as the value of \<open>hasStartup\<close> it captured;
  \<^item> \<open>Closed_handler\<close>, the handler registered on \<open>content.Closed\<close>, as the value of
    \<open>hasStartup\<close> it captured; \<open>None\<close> when none is registered (or after \<open>revoke\<close>);
  \<^item> \<open>page_handlers\<close>, whether the handlers of \<open>LiberapayOpenRequested\<close>,
    \<open>DiscordJoinRequested\<close>, \<open>ConfigEditRequested\<close> and \<open>LicenseApproved\<close> are registered;
  \<^item> \<open>main_queue\<close>, the callables given to \<open>DispatchToMainThread\<close> and not yet run;
  \<^item> \<open>log\<close>, the calls made so far.
  The members of the class are declared in its header, which is not part of the source
  read here; only \<open>m_WelcomePage\<close> is state that \<open>application.cpp\<close> itself reads and
  writes.
\<close>

datatype IAsyncOperation = StartupTask_operation

datatype coroutine_frame =
    Not_called
  | At_co_await_operation
  | At_co_await_Enable
  | Returned

datatype main_task =
    Set_m_WelcomePage HWND
  | Closed_task bool
  | Edit_task
  | Approved_task

record Application =
  m_WelcomePage :: HWND
  frame :: coroutine_frame
  configure_callback :: "bool option"
  Closed_handler :: "bool option"
  page_handlers :: bool
  main_queue :: "main_task list"
  log :: "effect list"

definition emit :: "effect list \<Rightarrow> Application \<Rightarrow> Application" where
  "emit es s = s\<lparr>log := log s @ es\<rparr>"

text \<open>
  Modelled from the spec: \<open>DispatchToMainThread\<close> is defined in the header. The spec
  describes dispatching to a thread as follows: it "enqueues callable for execution on that
  thread and returns without blocking the caller; execution order on a given thread
  preserves enqueue order". That \<open>Shutdown\<close> shuts the dispatcher queue down before it
  posts the quit message is part of the log only; it is not carried over to \<open>main_queue\<close>.
\<close>

definition DispatchToMainThread :: "main_task \<Rightarrow> Application \<Rightarrow> Application" where
  "DispatchToMainThread task s = s\<lparr>main_queue := main_queue s @ [task]\<rparr>"

subsection \<open>BringWelcomeToFront\<close>

definition BringWelcomeToFront :: "Application \<Rightarrow> bool \<times> Application" where
  "BringWelcomeToFront s =
     (if m_WelcomePage s \<noteq> None then (True, emit [SetForegroundWindow (m_WelcomePage s)] s)
      else (False, s))"

subsection \<open>CreateWelcomePage and the constructor\<close>

text \<open>
  The part of \<open>CreateWelcomePage\<close> after the \<open>if\<close>: the call of \<open>CreateXamlWindow\<close>,
  whose callback captures \<open>hasStartup = operation != nullptr\<close>, and the return.
\<close>

definition CreateWelcomePage_window :: "IAsyncOperation option \<Rightarrow> Application \<Rightarrow> Application" where
  "CreateWelcomePage_window operation s =
     (emit [CreateXamlWindow_WelcomePage] s)
       \<lparr>configure_callback := Some (operation \<noteq> None), frame := Returned\<rparr>"

definition CreateWelcomePage :: "IAsyncOperation option \<Rightarrow> Application \<Rightarrow> Application" where
  "CreateWelcomePage operation s =
     (if operation \<noteq> None then (emit [co_await_operation] s)\<lparr>frame := At_co_await_operation\<rparr>
      else CreateWelcomePage_window operation s)"

text \<open>
  The body of the constructor. \<open>spam\<close> says whether \<open>m_Loader.SetPreferredAppMode()\<close>
  returned a function.
\<close>

definition Application_ctor :: "string option \<Rightarrow> bool \<Rightarrow> bool \<Rightarrow> Application" where
  "Application_ctor storageFolder fileExists spam =
     (let s0 = \<lparr>m_WelcomePage = None, frame = Not_called, configure_callback = None,
                Closed_handler = None, page_handlers = False, main_queue = [], log = []\<rparr>;
          s1 = (if spam then emit [SetPreferredAppMode_AllowDark] s0 else s0);
          s2 = (if storageFolder \<noteq> None then emit [Startup_AcquireTask] s1 else s1);
          op = (if storageFolder \<noteq> None then Some StartupTask_operation else None)
      in if \<not> fileExists then CreateWelcomePage op s2 else s2)"

subsection \<open>Events\<close>

text \<open>
  What happens to the Application after the constructor: an awaited operation completes
  and the coroutine resumes; the window is constructed and the callback of
  \<open>CreateXamlWindow\<close> is invoked with the handle of its host; the page raises one of its
  events; the main thread runs the next callable of its queue (with the Xaml threads a
  \<open>Shutdown\<close> started by it would find). An event of the page calls the handler
  registered for it, and nothing when none is registered or the registration was revoked.
  The coroutine \<open>Shutdown(1)\<close> started by the callable of the \<open>Closed\<close> handler is run to
  its end within that callable.
\<close>

datatype event =
    operation_completes
  | Enable_completes
  | Window_constructed HWND
  | Closed
  | LiberapayOpenRequested
  | DiscordJoinRequested
  | ConfigEditRequested
  | LicenseApproved
  | Main_thread_runs "xaml_thread list"

text \<open>
  The three pages opened are fixed addresses around the macro \<open>APP_NAME\<close>, which is
  defined elsewhere: \<open>OpenUri\<close> carries the text before and after it.
\<close>

definition OpenDonationPage :: "effect list" where
  "OpenDonationPage = [OpenUri ''https://liberapay.com/'' []]"

definition OpenTipsPage :: "effect list" where
  "OpenTipsPage = [OpenUri ''https://'' ''.github.io/tips'']"

definition OpenDiscordServer :: "effect list" where
  "OpenDiscordServer = [OpenUri ''https://discord.gg/'' []]"

text \<open>The lambdas given to \<open>DispatchToMainThread\<close>, run on the main thread.\<close>

fun run_task :: "xaml_thread list \<Rightarrow> main_task \<Rightarrow> Application \<Rightarrow> Application" where
  "run_task threads (Set_m_WelcomePage hwnd) s = s\<lparr>m_WelcomePage := hwnd\<rparr>"
| "run_task threads (Closed_task hasStartup) s =
     emit ((if hasStartup then [Startup_Disable] else []) @
           [Config_DeleteConfigFile] @ Shutdown threads 1)
          (s\<lparr>m_WelcomePage := None\<rparr>)"
| "run_task threads Edit_task s = emit [Config_EditConfigFile] s"
| "run_task threads Approved_task s =
     emit [Config_SaveConfig, AppWindow_RemoveHideTrayIconOverride,
           AppWindow_SendNotification_WELCOME]
          (s\<lparr>m_WelcomePage := None\<rparr>)"

text \<open>The callback of \<open>CreateXamlWindow\<close>, and the handlers it registers.\<close>

definition configure :: "bool \<Rightarrow> HWND \<Rightarrow> Application \<Rightarrow> Application" where
  "configure hasStartup hwnd s =
     (DispatchToMainThread (Set_m_WelcomePage hwnd) s)
       \<lparr>configure_callback := None, Closed_handler := Some hasStartup, page_handlers := True\<rparr>"

definition on_Closed :: "bool \<Rightarrow> Application \<Rightarrow> Application" where
  "on_Closed hasStartup s = DispatchToMainThread (Closed_task hasStartup) s"

definition on_ConfigEditRequested :: "Application \<Rightarrow> Application" where
  "on_ConfigEditRequested s = DispatchToMainThread Edit_task s"

definition on_LicenseApproved :: "Application \<Rightarrow> Application" where
  "on_LicenseApproved s =
     DispatchToMainThread Approved_task
       ((emit [closeRevoker_revoke] s)\<lparr>Closed_handler := None\<rparr>)"

fun step :: "event \<Rightarrow> Application \<Rightarrow> Application" where
  "step operation_completes s =
     (if frame s = At_co_await_operation
      then (emit [co_await_Startup_Enable] s)\<lparr>frame := At_co_await_Enable\<rparr> else s)"
| "step Enable_completes s =
     (if frame s = At_co_await_Enable
      then CreateWelcomePage_window (Some StartupTask_operation) s else s)"
| "step (Window_constructed hwnd) s =
     (case configure_callback s of
        Some hasStartup \<Rightarrow> configure hasStartup hwnd s
      | None \<Rightarrow> s)"
| "step Closed s =
     (case Closed_handler s of
        Some hasStartup \<Rightarrow> on_Closed hasStartup s
      | None \<Rightarrow> s)"
| "step LiberapayOpenRequested s = (if page_handlers s then emit OpenDonationPage s else s)"
| "step DiscordJoinRequested s = (if page_handlers s then emit OpenDiscordServer s else s)"
| "step ConfigEditRequested s = (if page_handlers s then on_ConfigEditRequested s else s)"
| "step LicenseApproved s = (if page_handlers s then on_LicenseApproved s else s)"
| "step (Main_thread_runs threads) s =
     (case main_queue s of
        [] \<Rightarrow> s
      | task # rest \<Rightarrow> run_task threads task (s\<lparr>main_queue := rest\<rparr>))"

fun run :: "event list \<Rightarrow> Application \<Rightarrow> Application" where
  "run [] s = s"
| "run (e # evs) s = run evs (step e s)"

text \<open>The part of a log that concerns the welcome coroutine.\<close>

definition welcome_trace :: "effect list \<Rightarrow> effect list" where
  "welcome_trace es =
     filter (\<lambda>e. e = co_await_operation \<or> e = co_await_Startup_Enable \<or>
                 e = CreateXamlWindow_WelcomePage) es"

subsection \<open>Auxiliary definitions for the proofs\<close>

text \<open>
  What the log holds of the welcome coroutine when it was called with an operation and
  stands at a given point.
\<close>

definition trace_at :: "coroutine_frame \<Rightarrow> effect list" where
  "trace_at f =
     (case f of
        Not_called \<Rightarrow> []
      | At_co_await_operation \<Rightarrow> [co_await_operation]
      | At_co_await_Enable \<Rightarrow> [co_await_operation, co_await_Startup_Enable]
      | Returned \<Rightarrow> [co_await_operation, co_await_Startup_Enable, CreateXamlWindow_WelcomePage])"

text \<open>
  The calls of the path taken when the page is closed without approval, and the callable
  that makes them.
\<close>

fun is_Closed_path :: "effect \<Rightarrow> bool" where
  "is_Closed_path Startup_Disable = True"
| "is_Closed_path Config_DeleteConfigFile = True"
| "is_Closed_path (Shutdown_called exitCode) = True"
| "is_Closed_path e = False"

fun is_Closed_task :: "main_task \<Rightarrow> bool" where
  "is_Closed_task (Closed_task hasStartup) = True"
| "is_Closed_task task = False"

text \<open>
  Invariants of the states reached from the constructor: handlers are registered and a
  callback is pending only after the coroutine has returned, and the registration of the
  handlers uses the callback up; every captured \<open>hasStartup\<close> has the same value \<open>c\<close>,
  which is true when the coroutine is suspended at an await.
\<close>

definition coroutine_inv :: "Application \<Rightarrow> bool" where
  "coroutine_inv s =
     ((if page_handlers s \<or> configure_callback s \<noteq> None then frame s = Returned else True) \<and>
      (if page_handlers s then configure_callback s = None else True) \<and>
      (if Closed_handler s \<noteq> None then page_handlers s else True))"

definition captured_inv :: "bool \<Rightarrow> Application \<Rightarrow> bool" where
  "captured_inv c s =
     ((configure_callback s = None \<or> configure_callback s = Some c) \<and>
      (Closed_handler s = None \<or> Closed_handler s = Some c) \<and>
      (if frame s = At_co_await_operation \<or> frame s = At_co_await_Enable then c else True))"

text \<open>No callable of the closed path is queued and none of its calls has been made.\<close>

definition Closed_free :: "Application \<Rightarrow> bool" where
  "Closed_free s =
     (filter is_Closed_task (main_queue s) = [] \<and> filter is_Closed_path (log s) = [])"

section \<open>Shutdown polls every window\<close>

lemma TryClose_calls_append: "TryClose_calls (xs @ ys) = TryClose_calls xs @ TryClose_calls ys"
  by (induction xs rule: TryClose_calls.induct) simp_all

lemma SetForegroundWindow_calls_append:
  "SetForegroundWindow_calls (xs @ ys) = SetForegroundWindow_calls xs @ SetForegroundWindow_calls ys"
  by (induction xs rule: SetForegroundWindow_calls.induct) simp_all

lemma PostQuitMessage_calls_append:
  "PostQuitMessage_calls (xs @ ys) = PostQuitMessage_calls xs @ PostQuitMessage_calls ys"
  by (induction xs rule: PostQuitMessage_calls.induct) simp_all

lemma polled_windows_Nil: "polled_windows [] = []"
  by (simp add: polled_windows_def List.map_filter_simps)

lemma polled_windows_Cons: "polled_windows (t # ts) = polled_windows [t] @ polled_windows ts"
  by (simp add: polled_windows_def List.map_filter_simps split: option.splits)

lemma poll_threads_Cons:
  "poll_threads (t # ts) c =
     (fst (poll_threads ts (fst (poll_thread t c))),
      snd (poll_thread t c) @ snd (poll_threads ts (fst (poll_thread t c))))"
  by (simp split: prod.splits)

lemma poll_thread_canExit:
  "fst (poll_thread t c) = (c \<and> list_all TryClose (polled_windows [t]))"
  by (simp add: poll_thread_def polled_windows_def List.map_filter_simps split: option.splits)

lemma poll_thread_TryClose_calls:
  "TryClose_calls (snd (poll_thread t c)) = map handle (polled_windows [t])"
  by (simp add: poll_thread_def polled_windows_def List.map_filter_simps split: option.splits)

lemma poll_thread_SetForegroundWindow_calls:
  "SetForegroundWindow_calls (snd (poll_thread t c)) =
     map handle (filter (\<lambda>w. \<not> TryClose w) (polled_windows [t]))"
  by (simp add: poll_thread_def polled_windows_def List.map_filter_simps split: option.splits)

lemma poll_thread_PostQuitMessage_calls: "PostQuitMessage_calls (snd (poll_thread t c)) = []"
  by (simp add: poll_thread_def split: option.splits)

lemma poll_thread_effects:
  "set (snd (poll_thread t c)) \<subseteq>
     range Thread_Lock \<union> range resume_foreground \<inter> - {resume_foreground Main_dispatcher} \<union> range Window_TryClose \<union> range SetForegroundWindow"
  by (simp add: poll_thread_def split: option.splits)

lemma poll_threads_canExit:
  "fst (poll_threads ts c) = (c \<and> list_all TryClose (polled_windows ts))"
proof (induction ts arbitrary: c)
  case Nil
  show ?case by (simp add: polled_windows_Nil)
next
  case (Cons t ts)
  have "polled_windows (t # ts) = polled_windows [t] @ polled_windows ts"
    by (rule polled_windows_Cons)
  then show ?case
    by (simp only: poll_threads_Cons fst_conv Cons.IH poll_thread_canExit list_all_append conj_assoc)
qed

lemma poll_threads_TryClose_calls:
  "TryClose_calls (snd (poll_threads ts c)) = map handle (polled_windows ts)"
proof (induction ts arbitrary: c)
  case Nil
  show ?case by (simp add: polled_windows_Nil)
next
  case (Cons t ts)
  show ?case
    by (simp only: poll_threads_Cons snd_conv TryClose_calls_append Cons.IH
        poll_thread_TryClose_calls polled_windows_Cons [of t ts] map_append)
qed

lemma poll_threads_SetForegroundWindow_calls:
  "SetForegroundWindow_calls (snd (poll_threads ts c)) =
     map handle (filter (\<lambda>w. \<not> TryClose w) (polled_windows ts))"
proof (induction ts arbitrary: c)
  case Nil
  show ?case by (simp add: polled_windows_Nil)
next
  case (Cons t ts)
  show ?case
    by (simp only: poll_threads_Cons snd_conv SetForegroundWindow_calls_append Cons.IH
        poll_thread_SetForegroundWindow_calls polled_windows_Cons [of t ts] map_append filter_append)
qed

lemma poll_threads_PostQuitMessage_calls: "PostQuitMessage_calls (snd (poll_threads ts c)) = []"
proof (induction ts arbitrary: c)
  case Nil
  show ?case by simp
next
  case (Cons t ts)
  show ?case
    by (simp only: poll_threads_Cons snd_conv PostQuitMessage_calls_append Cons.IH
        poll_thread_PostQuitMessage_calls append_Nil)
qed

lemma poll_threads_effects:
  "set (snd (poll_threads ts c)) \<subseteq>
     range Thread_Lock \<union> range resume_foreground \<inter> - {resume_foreground Main_dispatcher} \<union> range Window_TryClose \<union> range SetForegroundWindow"
proof (induction ts arbitrary: c)
  case Nil
  show ?case by simp
next
  case (Cons t ts)
  have "set (snd (poll_threads (t # ts) c)) =
      set (snd (poll_thread t c)) \<union> set (snd (poll_threads ts (fst (poll_thread t c))))"
    by (simp only: poll_threads_Cons snd_conv set_append)
  then show ?case
    using Cons.IH [of "fst (poll_thread t c)"] poll_thread_effects [of t c] by blast
qed

lemma Shutdown_eq:
  "Shutdown threads exitCode =
     Shutdown_called exitCode # snd (poll_threads threads True) @
     (if list_all TryClose (polled_windows threads)
      then [resume_foreground Main_dispatcher, ShutdownQueueAsync, PostQuitMessage exitCode]
      else [])"
  using poll_threads_canExit [of threads True]
  by (cases "poll_threads threads True") (simp add: Shutdown_def)

text \<open>
  Claim C1. For every list of Xaml threads and every answer of their windows to
  \<open>TryClose\<close>: \<open>Shutdown\<close> posts the quit message (once, with the exit code given, as
  the last call after resuming on the main dispatcher and shutting the dispatcher queue
  down) exactly when every window that was asked can close, and otherwise does not shut the
  queue down; \<open>TryClose\<close> is called on every current window with a page, in thread order,
  whatever the earlier answers; and exactly the refusing windows are brought to the
  foreground.
\<close>

theorem Shutdown_posts_quit_iff_all_closable:
  "PostQuitMessage_calls (Shutdown threads exitCode) =
     (if list_all TryClose (polled_windows threads) then [exitCode] else [])
   \<and> (if list_all TryClose (polled_windows threads)
      then suffix [resume_foreground Main_dispatcher, ShutdownQueueAsync, PostQuitMessage exitCode]
             (Shutdown threads exitCode)
      else ShutdownQueueAsync \<notin> set (Shutdown threads exitCode))
   \<and> TryClose_calls (Shutdown threads exitCode) = map handle (polled_windows threads)
   \<and> SetForegroundWindow_calls (Shutdown threads exitCode) =
       map handle (filter (\<lambda>w. \<not> TryClose w) (polled_windows threads))"
proof -
  have quit: "PostQuitMessage_calls (Shutdown threads exitCode) =
     (if list_all TryClose (polled_windows threads) then [exitCode] else [])"
    by (simp add: Shutdown_eq PostQuitMessage_calls_append poll_threads_PostQuitMessage_calls)
  have order: "(if list_all TryClose (polled_windows threads)
      then suffix [resume_foreground Main_dispatcher, ShutdownQueueAsync, PostQuitMessage exitCode]
             (Shutdown threads exitCode)
      else ShutdownQueueAsync \<notin> set (Shutdown threads exitCode))"
  proof (cases "list_all TryClose (polled_windows threads)")
    case True
    then have "Shutdown threads exitCode = (Shutdown_called exitCode # snd (poll_threads threads True)) @
       [resume_foreground Main_dispatcher, ShutdownQueueAsync, PostQuitMessage exitCode]"
      by (simp add: Shutdown_eq)
    then show ?thesis using True by (simp only: if_True suffixI)
  next
    case False
    have "ShutdownQueueAsync \<notin> set (snd (poll_threads threads True))"
      using poll_threads_effects [of threads True] by auto
    then show ?thesis using False by (simp add: Shutdown_eq)
  qed
  have asked: "TryClose_calls (Shutdown threads exitCode) = map handle (polled_windows threads)"
    by (simp add: Shutdown_eq TryClose_calls_append poll_threads_TryClose_calls)
  have front: "SetForegroundWindow_calls (Shutdown threads exitCode) =
       map handle (filter (\<lambda>w. \<not> TryClose w) (polled_windows threads))"
    by (simp add: Shutdown_eq SetForegroundWindow_calls_append poll_threads_SetForegroundWindow_calls)
  from quit order asked front show ?thesis by (intro conjI)
qed

theorem Shutdown_posts_quit_iff_all_closable_witness:
  "PostQuitMessage_calls
     (Shutdown
        [\<lparr>thread_id = 0, GetCurrentWindow = Some \<lparr>handle = Some 10, page = True, TryClose = True\<rparr>\<rparr>,
         \<lparr>thread_id = 1, GetCurrentWindow = Some \<lparr>handle = Some 11, page = True, TryClose = False\<rparr>\<rparr>,
         \<lparr>thread_id = 2, GetCurrentWindow = None\<rparr>,
         \<lparr>thread_id = 3, GetCurrentWindow = Some \<lparr>handle = Some 13, page = False, TryClose = False\<rparr>\<rparr>,
         \<lparr>thread_id = 4, GetCurrentWindow = Some \<lparr>handle = Some 14, page = True, TryClose = True\<rparr>\<rparr>]
        7) = []
   \<and> TryClose_calls
     (Shutdown
        [\<lparr>thread_id = 0, GetCurrentWindow = Some \<lparr>handle = Some 10, page = True, TryClose = True\<rparr>\<rparr>,
         \<lparr>thread_id = 1, GetCurrentWindow = Some \<lparr>handle = Some 11, page = True, TryClose = False\<rparr>\<rparr>,
         \<lparr>thread_id = 2, GetCurrentWindow = None\<rparr>,
         \<lparr>thread_id = 3, GetCurrentWindow = Some \<lparr>handle = Some 13, page = False, TryClose = False\<rparr>\<rparr>,
         \<lparr>thread_id = 4, GetCurrentWindow = Some \<lparr>handle = Some 14, page = True, TryClose = True\<rparr>\<rparr>]
        7) = [Some 10, Some 11, Some 14]
   \<and> SetForegroundWindow_calls
     (Shutdown
        [\<lparr>thread_id = 0, GetCurrentWindow = Some \<lparr>handle = Some 10, page = True, TryClose = True\<rparr>\<rparr>,
         \<lparr>thread_id = 1, GetCurrentWindow = Some \<lparr>handle = Some 11, page = True, TryClose = False\<rparr>\<rparr>,
         \<lparr>thread_id = 2, GetCurrentWindow = None\<rparr>,
         \<lparr>thread_id = 3, GetCurrentWindow = Some \<lparr>handle = Some 13, page = False, TryClose = False\<rparr>\<rparr>,
         \<lparr>thread_id = 4, GetCurrentWindow = Some \<lparr>handle = Some 14, page = True, TryClose = True\<rparr>\<rparr>]
        7) = [Some 11]"
  using Shutdown_posts_quit_iff_all_closable
    [of "[\<lparr>thread_id = 0, GetCurrentWindow = Some \<lparr>handle = Some 10, page = True, TryClose = True\<rparr>\<rparr>,
         \<lparr>thread_id = 1, GetCurrentWindow = Some \<lparr>handle = Some 11, page = True, TryClose = False\<rparr>\<rparr>,
         \<lparr>thread_id = 2, GetCurrentWindow = None\<rparr>,
         \<lparr>thread_id = 3, GetCurrentWindow = Some \<lparr>handle = Some 13, page = False, TryClose = False\<rparr>\<rparr>,
         \<lparr>thread_id = 4, GetCurrentWindow = Some \<lparr>handle = Some 14, page = True, TryClose = True\<rparr>\<rparr>]" 7]
  by (simp add: polled_windows_def List.map_filter_simps)

section \<open>BringWelcomeToFront\<close>

text \<open>
  Claim C10. \<open>BringWelcomeToFront\<close> returns true exactly when the cached welcome-window
  handle is not null; it calls \<open>SetForegroundWindow\<close> on that handle in that case and makes
  no call otherwise; and the cached handle, like the rest of the state, is the same after
  the call as before.
\<close>

theorem BringWelcomeToFront_iff_cached:
  "fst (BringWelcomeToFront s) = (m_WelcomePage s \<noteq> None)
   \<and> log (snd (BringWelcomeToFront s)) =
       log s @ (if m_WelcomePage s \<noteq> None then [SetForegroundWindow (m_WelcomePage s)] else [])
   \<and> m_WelcomePage (snd (BringWelcomeToFront s)) = m_WelcomePage s
   \<and> (snd (BringWelcomeToFront s))\<lparr>log := log s\<rparr> = s"
  by (simp add: BringWelcomeToFront_def emit_def)

section \<open>The main loop\<close>

lemma peek_loop_Cons:
  "peek_loop (mc # rest) =
     (if \<not> is_quit mc
      then (spec_message_effects mc @ fst (peek_loop rest), snd (peek_loop rest))
      else ([], Some (int_of_WPARAM (wParam (fst mc)))))"
  by (cases mc; cases "peek_loop rest") (simp add: is_quit_def spec_message_effects_def)

lemma peek_loop_effects:
  "fst (peek_loop msgs) = concat (map spec_message_effects (takeWhile (\<lambda>mc. \<not> is_quit mc) msgs))"
proof (induction msgs)
  case Nil
  show ?case by simp
next
  case (Cons mc msgs)
  then show ?case by (simp add: peek_loop_Cons del: peek_loop.simps)
qed

lemma peek_loop_result:
  "snd (peek_loop msgs) =
     (case dropWhile (\<lambda>mc. \<not> is_quit mc) msgs of
        [] \<Rightarrow> None
      | q # _ \<Rightarrow> Some (int_of_WPARAM (wParam (fst q))))"
proof (induction msgs)
  case Nil
  show ?case by simp
next
  case (Cons mc msgs)
  then show ?case by (simp add: peek_loop_Cons del: peek_loop.simps)
qed

lemma Run_WAIT_OBJECT_0:
  "Run ((WAIT_OBJECT_0, msgs) # rounds) =
     (case snd (peek_loop msgs) of
        Some exitCode \<Rightarrow> (fst (peek_loop msgs), Some exitCode)
      | None \<Rightarrow> (fst (peek_loop msgs) @ fst (Run rounds), snd (Run rounds)))"
  by (cases "peek_loop msgs"; cases "Run rounds") (simp split: option.splits)

text \<open>
  Claim C8. In a round of \<open>Run\<close> woken by message availability, the messages before the
  first quit message are each offered to \<open>PreTranslateMessage\<close>, and translated and
  dispatched exactly when it did not consume them. If the round holds a quit message,
  \<open>Run\<close> returns its \<open>wParam\<close>, cast to \<open>int\<close>, and nothing is done for the messages
  or rounds after it; if it holds none, the loop goes on to the next round.
\<close>

theorem Run_handles_each_message:
  "Run ((WAIT_OBJECT_0, msgs) # rounds) =
     (case dropWhile (\<lambda>mc. \<not> is_quit mc) msgs of
        [] \<Rightarrow> (concat (map spec_message_effects msgs) @ fst (Run rounds), snd (Run rounds))
      | q # _ \<Rightarrow>
          (concat (map spec_message_effects (takeWhile (\<lambda>mc. \<not> is_quit mc) msgs)),
           Some (int_of_WPARAM (wParam (fst q)))))"
proof (cases "dropWhile (\<lambda>mc. \<not> is_quit mc) msgs")
  case Nil
  have "takeWhile (\<lambda>mc. \<not> is_quit mc) msgs @ dropWhile (\<lambda>mc. \<not> is_quit mc) msgs = msgs"
    by (rule takeWhile_dropWhile_id)
  then have tw: "takeWhile (\<lambda>mc. \<not> is_quit mc) msgs = msgs"
    by (simp only: Nil append_Nil2)
  have r: "snd (peek_loop msgs) = None"
    by (simp only: peek_loop_result Nil list.case)
  have e: "fst (peek_loop msgs) = concat (map spec_message_effects msgs)"
    by (simp only: peek_loop_effects tw)
  show ?thesis
    by (simp only: Run_WAIT_OBJECT_0 r e Nil option.case list.case)
next
  case (Cons q rest)
  have r: "snd (peek_loop msgs) = Some (int_of_WPARAM (wParam (fst q)))"
    by (simp only: peek_loop_result Cons list.case)
  show ?thesis
    by (simp only: Run_WAIT_OBJECT_0 r peek_loop_effects Cons option.case list.case)
qed

theorem Run_handles_each_message_witness:
  "Run [(WAIT_OBJECT_0,
         [(\<lparr>message = 0x0100, wParam = 65\<rparr>, True),
          (\<lparr>message = 0x000F, wParam = 0\<rparr>, False),
          (\<lparr>message = WM_QUIT, wParam = 7\<rparr>, False),
          (\<lparr>message = 0x0101, wParam = 65\<rparr>, False)]),
        (WAIT_OBJECT_0, [(\<lparr>message = WM_QUIT, wParam = 9\<rparr>, False)])] =
     ([PreTranslateMessage \<lparr>message = 0x0100, wParam = 65\<rparr>,
       PreTranslateMessage \<lparr>message = 0x000F, wParam = 0\<rparr>,
       TranslateMessage \<lparr>message = 0x000F, wParam = 0\<rparr>,
       DispatchMessage \<lparr>message = 0x000F, wParam = 0\<rparr>],
      Some 7)"
  using Run_handles_each_message
    [of "[(\<lparr>message = 0x0100, wParam = 65\<rparr>, True),
          (\<lparr>message = 0x000F, wParam = 0\<rparr>, False),
          (\<lparr>message = WM_QUIT, wParam = 7\<rparr>, False),
          (\<lparr>message = 0x0101, wParam = 65\<rparr>, False)]"
        "[(WAIT_OBJECT_0, [(\<lparr>message = WM_QUIT, wParam = 9\<rparr>, False)])]"]
  by (simp add: is_quit_def WM_QUIT_def spec_message_effects_def int_of_WPARAM_def)

text \<open>
  Claim C9. When the wait returns \<open>WAIT_FAILED\<close> or any value other than
  \<open>WAIT_OBJECT_0\<close> and \<open>WAIT_IO_COMPLETION\<close>, the round logs at critical severity (for
  \<open>WAIT_FAILED\<close> the last error and then, as the case has no \<open>break\<close>, the
  unexpected-value message; for any other value the unexpected-value message) and the loop
  goes on with the next round: \<open>Run\<close> returns what the remaining rounds make it return.
\<close>

theorem Run_wait_failure_continues:
  assumes "wait \<noteq> WAIT_OBJECT_0" and "wait \<noteq> WAIT_IO_COMPLETION"
  shows "Run ((wait, msgs) # rounds) =
     ((if wait = WAIT_FAILED
       then [LastErrorHandle_critical ''Failed to enter alertable wait state!''] else []) @
      [MessagePrint_critical ''MsgWaitForMultipleObjectsEx returned an unexpected value!''] @
      fst (Run rounds),
      snd (Run rounds))"
  using assms by (cases "Run rounds") (simp add: LastErrorHandle_def MessagePrint_def)

theorem Run_wait_failure_continues_witness:
  "WAIT_FAILED \<noteq> WAIT_OBJECT_0 \<and> WAIT_FAILED \<noteq> WAIT_IO_COMPLETION \<and>
   Run [(WAIT_FAILED, []), (WAIT_OBJECT_0, [(\<lparr>message = WM_QUIT, wParam = 0\<rparr>, False)])] =
     ([LastErrorHandle_critical ''Failed to enter alertable wait state!'',
       MessagePrint_critical ''MsgWaitForMultipleObjectsEx returned an unexpected value!''],
      Some 0)"
proof -
  have a: "WAIT_FAILED \<noteq> WAIT_OBJECT_0" by (simp add: WAIT_FAILED_def WAIT_OBJECT_0_def)
  have b: "WAIT_FAILED \<noteq> WAIT_IO_COMPLETION" by (simp add: WAIT_FAILED_def WAIT_IO_COMPLETION_def)
  show ?thesis
    using a b Run_wait_failure_continues [OF a b, of "[]" "[(WAIT_OBJECT_0, [(\<lparr>message = WM_QUIT, wParam = 0\<rparr>, False)])]"]
    by (simp add: int_of_WPARAM_def)
qed

section \<open>Dependency versions\<close>

text \<open>
  Claim C4. An installed version satisfies a descriptor exactly when it is greater than or
  equal to the descriptor's version in the lexicographic order on (major, minor, build,
  revision). The descriptor of \<open>m_UwpCRTDep\<close>, version (14, 0, 30704, 0), is satisfied by
  the installed version (14, 0, 30704, 1) and not by (13, 9, 99999, 99).
\<close>

theorem version_satisfied_lexicographic:
  "version_satisfied d v = (version_tuple d \<le> version_tuple v)
   \<and> version_satisfied (version (m_UwpCRTDep storageFolder))
       \<lparr>Revision = 1, Build = 30704, Minor = 0, Major = 14\<rparr>
   \<and> \<not> version_satisfied (version (m_UwpCRTDep storageFolder))
       \<lparr>Revision = 99, Build = 99999, Minor = 9, Major = 13\<rparr>"
proof -
  have "version_satisfied d v = (version_tuple d \<le> version_tuple v)"
    by (auto simp add: version_satisfied_def version_tuple_def less_eq_prod_def)
  moreover have "version_satisfied (version (m_UwpCRTDep storageFolder))
       \<lparr>Revision = 1, Build = 30704, Minor = 0, Major = 14\<rparr>"
    by (simp add: version_satisfied_def m_UwpCRTDep_def)
  moreover have "\<not> version_satisfied (version (m_UwpCRTDep storageFolder))
       \<lparr>Revision = 99, Build = 99999, Minor = 9, Major = 13\<rparr>"
    by (simp add: version_satisfied_def m_UwpCRTDep_def)
  ultimately show ?thesis by (intro conjI)
qed

section \<open>The welcome flow\<close>

lemmas handler_defs =
  emit_def DispatchToMainThread_def configure_def on_Closed_def on_ConfigEditRequested_def
  on_LicenseApproved_def CreateWelcomePage_window_def CreateWelcomePage_def
  OpenDonationPage_def OpenDiscordServer_def

lemma Shutdown_effects:
  "set (Shutdown threads exitCode) \<subseteq>
     {Shutdown_called exitCode, ShutdownQueueAsync, PostQuitMessage exitCode} \<union>
     range Thread_Lock \<union> range resume_foreground \<union> range Window_TryClose \<union>
     range SetForegroundWindow"
  using poll_threads_effects [of threads True]
  by (auto simp add: Shutdown_eq)

lemma welcome_trace_append: "welcome_trace (xs @ ys) = welcome_trace xs @ welcome_trace ys"
  by (simp add: welcome_trace_def)

lemma welcome_trace_Nil: "welcome_trace [] = []"
  by (simp add: welcome_trace_def)

lemma welcome_trace_Cons:
  "welcome_trace (x # xs) =
     (if x = co_await_operation \<or> x = co_await_Startup_Enable \<or> x = CreateXamlWindow_WelcomePage
      then x # welcome_trace xs else welcome_trace xs)"
  by (simp add: welcome_trace_def)

lemma welcome_trace_Shutdown: "welcome_trace (Shutdown threads exitCode) = []"
  using Shutdown_effects [of threads exitCode]
  by (auto simp add: welcome_trace_def filter_empty_conv)

lemma run_task_fields:
  "frame (run_task threads task s) = frame s"
  "configure_callback (run_task threads task s) = configure_callback s"
  "Closed_handler (run_task threads task s) = Closed_handler s"
  "page_handlers (run_task threads task s) = page_handlers s"
  "main_queue (run_task threads task s) = main_queue s"
  by (cases task; simp add: emit_def)+

lemma run_task_welcome_trace:
  "welcome_trace (log (run_task threads task s)) = welcome_trace (log s)"
  by (cases task)
     (simp_all add: emit_def welcome_trace_append welcome_trace_Shutdown welcome_trace_Cons
        welcome_trace_Nil)

lemma step_frame:
  "frame (step e s) =
     (if e = operation_completes \<and> frame s = At_co_await_operation then At_co_await_Enable
      else if e = Enable_completes \<and> frame s = At_co_await_Enable then Returned
      else frame s)"
  by (cases e) (simp_all add: handler_defs run_task_fields split: option.splits list.splits)

lemma step_welcome_trace:
  "welcome_trace (log (step e s)) =
     welcome_trace (log s) @
     (if e = operation_completes \<and> frame s = At_co_await_operation then [co_await_Startup_Enable]
      else if e = Enable_completes \<and> frame s = At_co_await_Enable
      then [CreateXamlWindow_WelcomePage]
      else [])"
  by (cases e)
     (simp_all add: handler_defs run_task_welcome_trace welcome_trace_append welcome_trace_Cons
        welcome_trace_Nil split: option.splits list.splits)

lemma subseq_pair_fst: "subseq [a, b] ys \<Longrightarrow> a \<in> set ys"
proof -
  assume "subseq [a, b] ys"
  then have "subseq [a] ys"
    using subseq_order.order_trans [of "[a]" "[a, b]" ys] by simp
  then show ?thesis by (simp add: subseq_singleton_left)
qed

lemma run_append: "run (xs @ ys) s = run ys (run xs s)"
  by (induction xs arbitrary: s) simp_all

lemma welcome_trace_mem:
  "x = co_await_operation \<or> x = co_await_Startup_Enable \<or> x = CreateXamlWindow_WelcomePage \<Longrightarrow>
     (x \<in> set (welcome_trace es)) = (x \<in> set es)"
  by (auto simp add: welcome_trace_def)

lemma welcome_trace_count:
  "x = co_await_operation \<or> x = co_await_Startup_Enable \<or> x = CreateXamlWindow_WelcomePage \<Longrightarrow>
     count_list (welcome_trace es) x = count_list es x"
  by (induction es) (auto simp add: welcome_trace_Cons welcome_trace_Nil)

lemma step_inert:
  assumes "frame s = Not_called" and "configure_callback s = None" and "Closed_handler s = None"
    and "\<not> page_handlers s" and "main_queue s = []"
  shows "step e s = s"
  using assms by (cases e) simp_all

lemma run_inert:
  assumes "frame s = Not_called" and "configure_callback s = None" and "Closed_handler s = None"
    and "\<not> page_handlers s" and "main_queue s = []"
  shows "run evs s = s"
  using assms by (induction evs) (simp_all add: step_inert)

lemma step_AcquireTask:
  "(Startup_AcquireTask \<in> set (log (step e s))) = (Startup_AcquireTask \<in> set (log s))"
proof (cases e)
  case (Main_thread_runs threads)
  have "Startup_AcquireTask \<notin> set (Shutdown threads 1)"
    using Shutdown_effects [of threads 1] by auto
  then have "(Startup_AcquireTask \<in> set (log (run_task threads task s'))) =
      (Startup_AcquireTask \<in> set (log s'))" for task s'
    by (cases task) (simp_all add: emit_def)
  then show ?thesis
    using Main_thread_runs by (simp split: list.splits)
qed (simp_all add: handler_defs split: option.splits)

lemma run_AcquireTask:
  "(Startup_AcquireTask \<in> set (log (run evs s))) = (Startup_AcquireTask \<in> set (log s))"
  by (induction evs arbitrary: s) (simp_all add: step_AcquireTask)

lemma run_frame_Returned: "frame s = Returned \<Longrightarrow> frame (run evs s) = Returned"
  by (induction evs arbitrary: s) (simp_all add: step_frame)

lemma run_welcome_trace_Returned:
  "frame s = Returned \<Longrightarrow> welcome_trace (log (run evs s)) = welcome_trace (log s)"
  by (induction evs arbitrary: s) (simp_all add: step_frame step_welcome_trace)

lemma run_frame_Enable:
  "frame s = At_co_await_Enable \<Longrightarrow>
     frame (run evs s) = (if Enable_completes \<in> set evs then Returned else At_co_await_Enable)"
proof (induction evs arbitrary: s)
  case Nil
  then show ?case by simp
next
  case (Cons e evs)
  show ?case
  proof (cases "e = Enable_completes")
    case True
    then have "frame (step e s) = Returned"
      using Cons.prems by (simp add: step_frame del: step.simps)
    then show ?thesis using True by (simp add: run_frame_Returned)
  next
    case False
    then have "frame (step e s) = At_co_await_Enable"
      using Cons.prems by (simp add: step_frame del: step.simps)
    then show ?thesis using False Cons.IH by simp
  qed
qed

lemma run_frame_operation:
  "frame s = At_co_await_operation \<Longrightarrow>
     frame (run evs s) =
       (if subseq [operation_completes, Enable_completes] evs then Returned
        else if operation_completes \<in> set evs then At_co_await_Enable
        else At_co_await_operation)"
proof (induction evs arbitrary: s)
  case Nil
  then show ?case by simp
next
  case (Cons e evs)
  show ?case
  proof (cases "e = operation_completes")
    case True
    then have "frame (step e s) = At_co_await_Enable"
      using Cons.prems by (simp add: step_frame del: step.simps)
    then show ?thesis using True by (simp add: run_frame_Enable subseq_singleton_left)
  next
    case False
    then have "frame (step e s) = At_co_await_operation"
      using Cons.prems by (simp add: step_frame del: step.simps)
    then show ?thesis using False Cons.IH by simp
  qed
qed

lemma step_trace_at:
  assumes "welcome_trace (log s) = trace_at (frame s)" and "frame s \<noteq> Not_called"
  shows "welcome_trace (log (step e s)) = trace_at (frame (step e s)) \<and>
         frame (step e s) \<noteq> Not_called"
  using assms by (simp add: step_frame step_welcome_trace trace_at_def)

lemma run_trace_at:
  assumes "welcome_trace (log s) = trace_at (frame s)" and "frame s \<noteq> Not_called"
  shows "welcome_trace (log (run evs s)) = trace_at (frame (run evs s))"
  using assms
proof (induction evs arbitrary: s)
  case Nil
  then show ?case by simp
next
  case (Cons e evs)
  from step_trace_at [OF Cons.prems, of e] show ?case
    by (simp add: Cons.IH)
qed

lemma ctor_file_exists:
  "Application_ctor storageFolder True spam =
     \<lparr>m_WelcomePage = None, frame = Not_called, configure_callback = None,
      Closed_handler = None, page_handlers = False, main_queue = [],
      log = (if spam then [SetPreferredAppMode_AllowDark] else []) @
            (if storageFolder \<noteq> None then [Startup_AcquireTask] else [])\<rparr>"
  by (simp add: Application_ctor_def emit_def)

lemma ctor_no_folder:
  "Application_ctor None False spam =
     \<lparr>m_WelcomePage = None, frame = Returned, configure_callback = Some False,
      Closed_handler = None, page_handlers = False, main_queue = [],
      log = (if spam then [SetPreferredAppMode_AllowDark] else []) @
            [CreateXamlWindow_WelcomePage]\<rparr>"
  by (simp add: Application_ctor_def handler_defs)

lemma ctor_folder:
  "Application_ctor (Some folder) False spam =
     \<lparr>m_WelcomePage = None, frame = At_co_await_operation, configure_callback = None,
      Closed_handler = None, page_handlers = False, main_queue = [],
      log = (if spam then [SetPreferredAppMode_AllowDark] else []) @
            [Startup_AcquireTask, co_await_operation]\<rparr>"
  by (simp add: Application_ctor_def handler_defs)

text \<open>
  Claim C5. When the Application is constructed with \<open>fileExists = true\<close>,
  \<open>CreateWelcomePage\<close> is not called and, whatever events follow, no welcome window is
  ever created (no event changes the state at all); and the constructor calls
  \<open>CreateWelcomePage\<close> exactly when \<open>fileExists\<close> is false.
\<close>

theorem file_exists_no_welcome_window:
  "run evs (Application_ctor storageFolder True spam) = Application_ctor storageFolder True spam
   \<and> frame (run evs (Application_ctor storageFolder True spam)) = Not_called
   \<and> CreateXamlWindow_WelcomePage \<notin> set (log (run evs (Application_ctor storageFolder True spam)))
   \<and> (frame (Application_ctor storageFolder fileExists spam) = Not_called) = fileExists"
proof -
  have inert: "run evs (Application_ctor storageFolder True spam) =
      Application_ctor storageFolder True spam"
    by (rule run_inert) (simp_all add: ctor_file_exists)
  have called: "(frame (Application_ctor storageFolder fileExists spam) = Not_called) = fileExists"
    by (cases storageFolder; cases fileExists)
       (simp_all add: ctor_file_exists ctor_no_folder ctor_folder)
  show ?thesis
    by (simp only: inert called) (simp add: ctor_file_exists)
qed

theorem file_exists_no_welcome_window_witness:
  "log (run [operation_completes, Enable_completes, Window_constructed (Some 5), Closed,
             LicenseApproved, Main_thread_runs []]
          (Application_ctor (Some ''C:'') True True)) =
     [SetPreferredAppMode_AllowDark, Startup_AcquireTask]"
  using file_exists_no_welcome_window
    [of "[operation_completes, Enable_completes, Window_constructed (Some 5), Closed,
          LicenseApproved, Main_thread_runs []]" "Some ''C:''" True True]
  by (simp add: Application_ctor_def handler_defs)

text \<open>
  Claim C6. When the Application is constructed with \<open>fileExists = false\<close> and no
  storage folder, the constructor creates the welcome window at once (the coroutine runs to
  its end without suspending) and, whatever events follow, the log never holds the
  acquisition of the startup task nor either of the two awaits, and holds the creation of
  the window once.
\<close>

theorem no_storage_folder_no_await:
  "log (Application_ctor None False spam) =
     (if spam then [SetPreferredAppMode_AllowDark] else []) @ [CreateXamlWindow_WelcomePage]
   \<and> frame (Application_ctor None False spam) = Returned
   \<and> welcome_trace (log (run evs (Application_ctor None False spam))) =
       [CreateXamlWindow_WelcomePage]
   \<and> Startup_AcquireTask \<notin> set (log (run evs (Application_ctor None False spam)))
   \<and> co_await_operation \<notin> set (log (run evs (Application_ctor None False spam)))
   \<and> co_await_Startup_Enable \<notin> set (log (run evs (Application_ctor None False spam)))"
proof -
  let ?s = "Application_ctor None False spam"
  have fr: "frame ?s = Returned" by (simp add: ctor_no_folder)
  have tr: "welcome_trace (log (run evs ?s)) = [CreateXamlWindow_WelcomePage]"
    by (simp add: run_welcome_trace_Returned [OF fr])
       (simp add: ctor_no_folder welcome_trace_append welcome_trace_Cons welcome_trace_Nil)
  have acq: "Startup_AcquireTask \<notin> set (log (run evs ?s))"
    by (simp add: run_AcquireTask) (simp add: ctor_no_folder)
  have a: "co_await_operation \<notin> set (log (run evs ?s))"
    using welcome_trace_mem [of co_await_operation "log (run evs ?s)"] tr by simp
  have b: "co_await_Startup_Enable \<notin> set (log (run evs ?s))"
    using welcome_trace_mem [of co_await_Startup_Enable "log (run evs ?s)"] tr by simp
  have l: "log ?s =
     (if spam then [SetPreferredAppMode_AllowDark] else []) @ [CreateXamlWindow_WelcomePage]"
    by (simp add: ctor_no_folder)
  from l fr tr acq a b show ?thesis by (intro conjI)
qed

theorem no_storage_folder_no_await_witness:
  "log (run [operation_completes, Enable_completes, Window_constructed (Some 5),
             Main_thread_runs [], Closed, Main_thread_runs []]
          (Application_ctor None False False)) =
     [CreateXamlWindow_WelcomePage, Config_DeleteConfigFile, Shutdown_called 1,
      resume_foreground Main_dispatcher, ShutdownQueueAsync, PostQuitMessage 1]"
  using no_storage_folder_no_await
    [of False "[operation_completes, Enable_completes, Window_constructed (Some 5),
             Main_thread_runs [], Closed, Main_thread_runs []]"]
  by (simp add: Application_ctor_def handler_defs Shutdown_def)

text \<open>
  Claim C2. When the Application is constructed with a storage folder and
  \<open>fileExists = false\<close> (the one case in which \<open>CreateWelcomePage\<close> is given an operation
  that is not null), then after any sequence of events: the operation has been awaited
  exactly once; the await of \<open>m_Startup.Enable()\<close> comes after it and the creation of the
  window after both; \<open>Enable\<close> has been awaited exactly when the operation has completed;
  and the window has been created exactly when the operation and then \<open>Enable\<close> have
  completed.
\<close>

theorem startup_operation_awaited_once:
  "count_list (log (run evs (Application_ctor (Some folder) False spam))) co_await_operation = 1
   \<and> prefix (welcome_trace (log (run evs (Application_ctor (Some folder) False spam))))
       [co_await_operation, co_await_Startup_Enable, CreateXamlWindow_WelcomePage]
   \<and> (co_await_Startup_Enable \<in> set (log (run evs (Application_ctor (Some folder) False spam))))
       = (operation_completes \<in> set evs)
   \<and> (CreateXamlWindow_WelcomePage \<in> set (log (run evs (Application_ctor (Some folder) False spam))))
       = subseq [operation_completes, Enable_completes] evs"
proof -
  let ?init = "Application_ctor (Some folder) False spam"
  let ?s = "run evs ?init"
  have fr0: "frame ?init = At_co_await_operation" by (simp add: ctor_folder)
  have tr0: "welcome_trace (log ?init) = trace_at (frame ?init)"
    by (simp add: ctor_folder trace_at_def welcome_trace_append welcome_trace_Cons welcome_trace_Nil)
  have tr: "welcome_trace (log ?s) = trace_at (frame ?s)"
    by (rule run_trace_at [OF tr0]) (simp add: fr0)
  have fr: "frame ?s =
       (if subseq [operation_completes, Enable_completes] evs then Returned
        else if operation_completes \<in> set evs then At_co_await_Enable
        else At_co_await_operation)"
    by (rule run_frame_operation [OF fr0])
  have sub: "subseq [operation_completes, Enable_completes] evs \<Longrightarrow> operation_completes \<in> set evs"
    by (rule subseq_pair_fst)
  have nn: "frame ?s \<noteq> Not_called"
    using fr by simp
  then have "count_list (trace_at (frame ?s)) co_await_operation = 1"
    by (cases "frame ?s") (simp_all add: trace_at_def)
  then have once: "count_list (log ?s) co_await_operation = 1"
    using welcome_trace_count [of co_await_operation "log ?s"] tr by simp
  have "prefix (trace_at (frame ?s))
       [co_await_operation, co_await_Startup_Enable, CreateXamlWindow_WelcomePage]"
    by (cases "frame ?s") (simp_all add: trace_at_def)
  then have pre: "prefix (welcome_trace (log ?s))
       [co_await_operation, co_await_Startup_Enable, CreateXamlWindow_WelcomePage]"
    using tr by simp
  have en: "(co_await_Startup_Enable \<in> set (log ?s)) = (operation_completes \<in> set evs)"
    using welcome_trace_mem [of co_await_Startup_Enable "log ?s"] tr fr sub
    by (auto simp add: trace_at_def split: if_splits)
  have win: "(CreateXamlWindow_WelcomePage \<in> set (log ?s)) =
      subseq [operation_completes, Enable_completes] evs"
    using welcome_trace_mem [of CreateXamlWindow_WelcomePage "log ?s"] tr fr
    by (auto simp add: trace_at_def split: if_splits)
  from once pre en win show ?thesis by (intro conjI)
qed

theorem startup_operation_awaited_once_witness:
  "log (run [Closed, operation_completes, operation_completes, Enable_completes, Enable_completes,
             Window_constructed (Some 5), operation_completes]
          (Application_ctor (Some ''C:'') False False)) =
     [Startup_AcquireTask, co_await_operation, co_await_Startup_Enable,
      CreateXamlWindow_WelcomePage]
   \<and> log (run [Enable_completes, Window_constructed (Some 5)]
            (Application_ctor (Some ''C:'') False False)) =
     [Startup_AcquireTask, co_await_operation]"
  using startup_operation_awaited_once
    [of "[Closed, operation_completes, operation_completes, Enable_completes, Enable_completes,
          Window_constructed (Some 5), operation_completes]" "''C:''" False]
  by (simp add: Application_ctor_def handler_defs)

section \<open>The handlers of the welcome page\<close>

lemma run_task_Closed_path:
  "\<not> is_Closed_task task \<Longrightarrow>
     filter is_Closed_path (log (run_task threads task s)) = filter is_Closed_path (log s)"
  by (cases task) (simp_all add: emit_def)

lemma count_SaveConfig_Shutdown: "count_list (Shutdown threads exitCode) Config_SaveConfig = 0"
  using Shutdown_effects [of threads exitCode] by (auto simp add: count_list_0_iff)

lemma run_task_SaveConfig:
  "count_list (log (run_task threads task s)) Config_SaveConfig =
     count_list (log s) Config_SaveConfig + (if task = Approved_task then 1 else 0)"
  by (cases task) (simp_all add: emit_def count_SaveConfig_Shutdown)

lemma step_coroutine_inv: "coroutine_inv s \<Longrightarrow> coroutine_inv (step e s)"
  by (cases e)
     (auto simp add: coroutine_inv_def handler_defs run_task_fields
        split: option.splits list.splits if_splits)

lemma run_coroutine_inv: "coroutine_inv s \<Longrightarrow> coroutine_inv (run evs s)"
  by (induction evs arbitrary: s) (simp_all add: step_coroutine_inv)

lemma step_captured_inv: "captured_inv c s \<Longrightarrow> captured_inv c (step e s)"
  by (cases e)
     (auto simp add: captured_inv_def handler_defs run_task_fields
        split: option.splits list.splits if_splits)

lemma run_captured_inv: "captured_inv c s \<Longrightarrow> captured_inv c (run evs s)"
  by (induction evs arbitrary: s) (simp_all add: step_captured_inv)

lemma ctor_coroutine_inv: "coroutine_inv (Application_ctor storageFolder fileExists spam)"
  by (cases storageFolder; cases fileExists)
     (simp_all add: ctor_file_exists ctor_no_folder ctor_folder coroutine_inv_def)

lemma ctor_captured_inv:
  "captured_inv (storageFolder \<noteq> None) (Application_ctor storageFolder fileExists spam)"
  by (cases storageFolder; cases fileExists)
     (simp_all add: ctor_file_exists ctor_no_folder ctor_folder captured_inv_def)

lemma ctor_Closed_free: "Closed_free (Application_ctor storageFolder fileExists spam)"
  by (cases storageFolder; cases fileExists)
     (simp_all add: ctor_file_exists ctor_no_folder ctor_folder Closed_free_def)

lemma step_Closed_free: "Closed_free s \<Longrightarrow> e \<noteq> Closed \<Longrightarrow> Closed_free (step e s)"
proof (cases e)
  case (Main_thread_runs threads)
  assume cf: "Closed_free s"
  show ?thesis
  proof (cases "main_queue s")
    case Nil
    then show ?thesis using cf Main_thread_runs by simp
  next
    case (Cons task rest)
    then have nt: "\<not> is_Closed_task task" and rest: "filter is_Closed_task rest = []"
      using cf by (auto simp add: Closed_free_def split: if_splits)
    have "step e s = run_task threads task (s\<lparr>main_queue := rest\<rparr>)"
      using Main_thread_runs Cons by simp
    then show ?thesis
      using cf rest run_task_Closed_path [OF nt, of threads "s\<lparr>main_queue := rest\<rparr>"]
      by (simp add: Closed_free_def run_task_fields)
  qed
qed (auto simp add: Closed_free_def handler_defs split: option.splits)

lemma run_Closed_free: "Closed_free s \<Longrightarrow> Closed \<notin> set evs \<Longrightarrow> Closed_free (run evs s)"
proof (induction evs arbitrary: s)
  case Nil
  then show ?case by simp
next
  case (Cons e evs)
  then have ne: "e \<noteq> Closed" and rest: "Closed \<notin> set evs" by auto
  have "Closed_free (step e s)"
    using Cons.prems(1) ne by (rule step_Closed_free)
  then have "Closed_free (run evs (step e s))"
    using rest by (rule Cons.IH)
  then show ?case by simp
qed

text \<open>After the revocation, with the coroutine returned and the callback used up.\<close>

lemma step_revoked:
  assumes "Closed_handler s = None" and "configure_callback s = None" and "frame s = Returned"
    and "Closed_free s"
  shows "Closed_handler (step e s) = None \<and> configure_callback (step e s) = None \<and>
         frame (step e s) = Returned \<and> Closed_free (step e s)"
proof (cases "e = Closed")
  case True
  then show ?thesis using assms by simp
next
  case False
  have "Closed_free (step e s)"
    using assms(4) False by (rule step_Closed_free)
  moreover have "Closed_handler (step e s) = None \<and> configure_callback (step e s) = None"
    using assms(1,2,3)
    by (cases e) (simp_all add: handler_defs run_task_fields split: option.splits list.splits)
  moreover have "frame (step e s) = Returned"
    using assms(3) by (simp add: step_frame del: step.simps)
  ultimately show ?thesis by simp
qed

lemma run_revoked:
  assumes "Closed_handler s = None" and "configure_callback s = None" and "frame s = Returned"
    and "Closed_free s"
  shows "Closed_handler (run evs s) = None \<and> Closed_free (run evs s)"
  using assms
proof (induction evs arbitrary: s)
  case Nil
  then show ?case by simp
next
  case (Cons e evs)
  from step_revoked [OF Cons.prems, of e] show ?case
    by (simp add: Cons.IH)
qed

lemma step_SaveConfig:
  "e \<noteq> LicenseApproved \<Longrightarrow>
     count_list (log (step e s)) Config_SaveConfig + count_list (main_queue (step e s)) Approved_task =
     count_list (log s) Config_SaveConfig + count_list (main_queue s) Approved_task"
  by (cases e)
     (simp_all add: handler_defs run_task_fields run_task_SaveConfig
        split: option.splits list.splits)

lemma run_SaveConfig:
  "LicenseApproved \<notin> set evs \<Longrightarrow>
     count_list (log (run evs s)) Config_SaveConfig + count_list (main_queue (run evs s)) Approved_task =
     count_list (log s) Config_SaveConfig + count_list (main_queue s) Approved_task"
proof (induction evs arbitrary: s)
  case Nil
  show ?case by simp
next
  case (Cons e evs)
  then have "e \<noteq> LicenseApproved" and "LicenseApproved \<notin> set evs" by auto
  then show ?case
    using Cons.IH [of "step e s"] step_SaveConfig [of e s] by simp
qed

lemma ctor_SaveConfig:
  "count_list (log (Application_ctor storageFolder fileExists spam)) Config_SaveConfig +
   count_list (main_queue (Application_ctor storageFolder fileExists spam)) Approved_task = 0"
  by (cases storageFolder; cases fileExists)
     (simp_all add: ctor_file_exists ctor_no_folder ctor_folder)

text \<open>
  A run that shows the welcome page: both awaits complete, the window is constructed, and
  the main thread stores its handle.
\<close>

lemma welcome_shown:
  "run [operation_completes, Enable_completes, Window_constructed (Some 5), Main_thread_runs []]
     (Application_ctor (Some ''C:'') False True) =
   \<lparr>m_WelcomePage = Some 5, frame = Returned, configure_callback = None,
    Closed_handler = Some True, page_handlers = True, main_queue = [],
    log = [SetPreferredAppMode_AllowDark, Startup_AcquireTask, co_await_operation,
           co_await_Startup_Enable, CreateXamlWindow_WelcomePage]\<rparr>"
  by (simp add: Application_ctor_def handler_defs)

text \<open>
  Claim C3. Let the welcome page have its handlers registered, after events among which
  the page has raised neither \<open>Closed\<close> nor \<open>LicenseApproved\<close>. When \<open>LicenseApproved\<close>
  fires, its handler revokes the registration of the \<open>Closed\<close> handler (its one call,
  made before it returns) and queues one callable for the main thread. Whatever events
  follow, \<open>Closed\<close> included, the registration stays revoked and the log never holds a call
  of the closed path (\<open>m_Startup.Disable\<close>, \<open>DeleteConfigFile\<close>, \<open>Shutdown\<close>); and, as long
  as the page does not raise \<open>LicenseApproved\<close> again, the saves of the configuration made
  and those still queued count one.
\<close>

theorem LicenseApproved_revokes_Closed_handler:
  assumes "page_handlers (run evs0 (Application_ctor storageFolder fileExists spam))"
    and "Closed \<notin> set evs0" and "LicenseApproved \<notin> set evs0"
  shows "Closed_handler (step LicenseApproved (run evs0 (Application_ctor storageFolder fileExists spam))) = None
    \<and> log (step LicenseApproved (run evs0 (Application_ctor storageFolder fileExists spam))) =
        log (run evs0 (Application_ctor storageFolder fileExists spam)) @ [closeRevoker_revoke]
    \<and> main_queue (step LicenseApproved (run evs0 (Application_ctor storageFolder fileExists spam))) =
        main_queue (run evs0 (Application_ctor storageFolder fileExists spam)) @ [Approved_task]
    \<and> Closed_handler (run evs (step LicenseApproved (run evs0 (Application_ctor storageFolder fileExists spam)))) = None
    \<and> filter is_Closed_path (log (run evs (step LicenseApproved (run evs0 (Application_ctor storageFolder fileExists spam))))) = []
    \<and> (if LicenseApproved \<notin> set evs
       then count_list (log (run evs (step LicenseApproved (run evs0 (Application_ctor storageFolder fileExists spam))))) Config_SaveConfig +
            count_list (main_queue (run evs (step LicenseApproved (run evs0 (Application_ctor storageFolder fileExists spam))))) Approved_task = 1
       else True)"
proof -
  let ?init = "Application_ctor storageFolder fileExists spam"
  let ?before = "run evs0 ?init"
  let ?after = "step LicenseApproved ?before"
  have inv: "coroutine_inv ?before"
    by (rule run_coroutine_inv) (rule ctor_coroutine_inv)
  have fr: "frame ?before = Returned" and cb: "configure_callback ?before = None"
    using inv assms(1) by (simp_all add: coroutine_inv_def)
  have free: "Closed_free ?before"
    using ctor_Closed_free assms(2) by (rule run_Closed_free)
  have zero: "count_list (log ?before) Config_SaveConfig + count_list (main_queue ?before) Approved_task = 0"
    using run_SaveConfig [OF assms(3), of ?init] ctor_SaveConfig [of storageFolder fileExists spam]
    by simp
  have handler: "Closed_handler ?after = None"
    using assms(1) by (simp add: handler_defs)
  have lg: "log ?after = log ?before @ [closeRevoker_revoke]"
    using assms(1) by (simp add: handler_defs)
  have q: "main_queue ?after = main_queue ?before @ [Approved_task]"
    using assms(1) by (simp add: handler_defs)
  have fr': "frame ?after = Returned" and cb': "configure_callback ?after = None"
    using assms(1) fr cb by (simp_all add: handler_defs)
  have free': "Closed_free ?after"
    using free lg q by (simp add: Closed_free_def)
  have later: "Closed_handler (run evs ?after) = None \<and> Closed_free (run evs ?after)"
    using handler cb' fr' free' by (rule run_revoked)
  have one: "count_list (log ?after) Config_SaveConfig + count_list (main_queue ?after) Approved_task = 1"
    using zero lg q by simp
  have saves: "(if LicenseApproved \<notin> set evs
       then count_list (log (run evs ?after)) Config_SaveConfig +
            count_list (main_queue (run evs ?after)) Approved_task = 1
       else True)"
    using run_SaveConfig [of evs ?after] one by simp
  from later have stays: "Closed_handler (run evs ?after) = None"
    and never: "filter is_Closed_path (log (run evs ?after)) = []"
    by (simp_all add: Closed_free_def)
  from handler lg q stays never saves show ?thesis by (intro conjI)
qed

theorem LicenseApproved_revokes_Closed_handler_witness:
  "page_handlers
     (run [operation_completes, Enable_completes, Window_constructed (Some 5), Main_thread_runs []]
        (Application_ctor (Some ''C:'') False True))
   \<and> Closed \<notin> set [operation_completes, Enable_completes, Window_constructed (Some 5), Main_thread_runs []]
   \<and> LicenseApproved \<notin> set [operation_completes, Enable_completes, Window_constructed (Some 5), Main_thread_runs []]
   \<and> run [Closed, Main_thread_runs [], Closed, Main_thread_runs []]
       (step LicenseApproved
          (run [operation_completes, Enable_completes, Window_constructed (Some 5), Main_thread_runs []]
             (Application_ctor (Some ''C:'') False True))) =
     \<lparr>m_WelcomePage = None, frame = Returned, configure_callback = None,
      Closed_handler = None, page_handlers = True, main_queue = [],
      log = [SetPreferredAppMode_AllowDark, Startup_AcquireTask, co_await_operation,
             co_await_Startup_Enable, CreateXamlWindow_WelcomePage, closeRevoker_revoke,
             Config_SaveConfig, AppWindow_RemoveHideTrayIconOverride,
             AppWindow_SendNotification_WELCOME]\<rparr>"
proof -
  have a: "page_handlers
     (run [operation_completes, Enable_completes, Window_constructed (Some 5), Main_thread_runs []]
        (Application_ctor (Some ''C:'') False True))"
    by (simp add: welcome_shown del: run.simps)
  have b: "Closed \<notin> set [operation_completes, Enable_completes, Window_constructed (Some 5), Main_thread_runs []]"
    by simp
  have c: "LicenseApproved \<notin> set [operation_completes, Enable_completes, Window_constructed (Some 5), Main_thread_runs []]"
    by simp
  show ?thesis
    using a b c LicenseApproved_revokes_Closed_handler [OF a b c, of "[Closed, Main_thread_runs [], Closed, Main_thread_runs []]"]
    by (simp add: welcome_shown handler_defs del: run.simps) (simp add: handler_defs)
qed

text \<open>
  Claim C7. In a state reached from the constructor in which the \<open>Closed\<close> handler is
  registered (the window exists and the licence has not been approved), the \<open>Closed\<close> event
  queues one callable for the main thread, which captured whether a storage folder was
  given, that is, whether the startup task was acquired. Run on any state, that callable
  clears \<open>m_WelcomePage\<close> and makes exactly these calls: \<open>m_Startup.Disable()\<close> if and
  only if the startup task was acquired, \<open>m_Config.DeleteConfigFile()\<close>, and
  \<open>Shutdown(1)\<close>. It posts the quit message, with exit code 1, if and only if every
  polled window can close; when a window refuses, it posts no quit message and does not
  shut the dispatcher queue down, so the process goes on running after that attempt.
\<close>

theorem Closed_without_approval:
  assumes "Closed_handler (run evs (Application_ctor storageFolder fileExists spam)) \<noteq> None"
  shows "step Closed (run evs (Application_ctor storageFolder fileExists spam)) =
       (run evs (Application_ctor storageFolder fileExists spam))
         \<lparr>main_queue := main_queue (run evs (Application_ctor storageFolder fileExists spam)) @
            [Closed_task (storageFolder \<noteq> None)]\<rparr>
    \<and> run_task threads (Closed_task (storageFolder \<noteq> None)) s =
       s\<lparr>m_WelcomePage := None,
         log := log s @ (if storageFolder \<noteq> None then [Startup_Disable] else []) @
                [Config_DeleteConfigFile] @ Shutdown threads 1\<rparr>
    \<and> PostQuitMessage_calls (log (run_task threads (Closed_task (storageFolder \<noteq> None)) s)) =
       PostQuitMessage_calls (log s) @
       (if list_all TryClose (polled_windows threads) then [1] else [])
    \<and> (if list_all TryClose (polled_windows threads)
       then suffix [resume_foreground Main_dispatcher, ShutdownQueueAsync, PostQuitMessage 1]
              (log (run_task threads (Closed_task (storageFolder \<noteq> None)) s))
       else ShutdownQueueAsync \<notin> set (Shutdown threads 1))"
proof -
  let ?s = "run evs (Application_ctor storageFolder fileExists spam)"
  let ?done = "run_task threads (Closed_task (storageFolder \<noteq> None)) s"
  have "captured_inv (storageFolder \<noteq> None) ?s"
    by (rule run_captured_inv) (rule ctor_captured_inv)
  then have h: "Closed_handler ?s = Some (storageFolder \<noteq> None)"
    using assms by (auto simp add: captured_inv_def)
  have queued: "step Closed ?s = ?s\<lparr>main_queue := main_queue ?s @ [Closed_task (storageFolder \<noteq> None)]\<rparr>"
    using h by (simp add: handler_defs)
  have task: "?done =
       s\<lparr>m_WelcomePage := None,
         log := log s @ (if storageFolder \<noteq> None then [Startup_Disable] else []) @
                [Config_DeleteConfigFile] @ Shutdown threads 1\<rparr>"
    by (simp add: emit_def)
  have lg: "log ?done =
       (log s @ (if storageFolder \<noteq> None then [Startup_Disable] else []) @
        [Config_DeleteConfigFile]) @ Shutdown threads 1"
    by (simp add: emit_def)
  have quit1: "PostQuitMessage_calls (Shutdown threads 1) =
       (if list_all TryClose (polled_windows threads) then [1] else [])"
    by (simp add: Shutdown_eq PostQuitMessage_calls_append poll_threads_PostQuitMessage_calls)
  have quit: "PostQuitMessage_calls (log ?done) =
       PostQuitMessage_calls (log s) @
       (if list_all TryClose (polled_windows threads) then [1] else [])"
    by (simp only: lg PostQuitMessage_calls_append quit1) simp
  have last: "(if list_all TryClose (polled_windows threads)
       then suffix [resume_foreground Main_dispatcher, ShutdownQueueAsync, PostQuitMessage 1]
              (log ?done)
       else ShutdownQueueAsync \<notin> set (Shutdown threads 1))"
  proof (cases "list_all TryClose (polled_windows threads)")
    case True
    then have "Shutdown threads 1 =
        (Shutdown_called 1 # snd (poll_threads threads True)) @
        [resume_foreground Main_dispatcher, ShutdownQueueAsync, PostQuitMessage 1]"
      by (simp add: Shutdown_eq)
    then have "log ?done =
        ((log s @ (if storageFolder \<noteq> None then [Startup_Disable] else []) @
          [Config_DeleteConfigFile]) @ Shutdown_called 1 # snd (poll_threads threads True)) @
        [resume_foreground Main_dispatcher, ShutdownQueueAsync, PostQuitMessage 1]"
      by (simp only: lg append_assoc)
    then have "suffix [resume_foreground Main_dispatcher, ShutdownQueueAsync, PostQuitMessage 1]
        (log ?done)"
      by (rule suffixI)
    then show ?thesis using True by (simp only: if_True)
  next
    case False
    have "ShutdownQueueAsync \<notin> set (snd (poll_threads threads True))"
      using poll_threads_effects [of threads True] by auto
    then show ?thesis using False by (simp add: Shutdown_eq)
  qed
  from queued task quit last show ?thesis by (intro conjI)
qed

theorem Closed_without_approval_witness:
  "Closed_handler
     (run [operation_completes, Enable_completes, Window_constructed (Some 5), Main_thread_runs []]
        (Application_ctor (Some ''C:'') False True)) \<noteq> None
   \<and> run [Closed,
          Main_thread_runs
            [\<lparr>thread_id = 0,
              GetCurrentWindow = Some \<lparr>handle = Some 5, page = True, TryClose = True\<rparr>\<rparr>]]
       (run [operation_completes, Enable_completes, Window_constructed (Some 5), Main_thread_runs []]
          (Application_ctor (Some ''C:'') False True)) =
     \<lparr>m_WelcomePage = None, frame = Returned, configure_callback = None,
      Closed_handler = Some True, page_handlers = True, main_queue = [],
      log = [SetPreferredAppMode_AllowDark, Startup_AcquireTask, co_await_operation,
             co_await_Startup_Enable, CreateXamlWindow_WelcomePage, Startup_Disable,
             Config_DeleteConfigFile, Shutdown_called 1, Thread_Lock 0,
             resume_foreground (Thread_dispatcher 0), Window_TryClose (Some 5),
             resume_foreground Main_dispatcher, ShutdownQueueAsync, PostQuitMessage 1]\<rparr>"
proof -
  have a: "Closed_handler
     (run [operation_completes, Enable_completes, Window_constructed (Some 5), Main_thread_runs []]
        (Application_ctor (Some ''C:'') False True)) \<noteq> None"
    by (simp add: welcome_shown del: run.simps)
  show ?thesis
    using a Closed_without_approval [OF a,
        of "[\<lparr>thread_id = 0,
              GetCurrentWindow = Some \<lparr>handle = Some 5, page = True, TryClose = True\<rparr>\<rparr>]"]
    by (simp add: welcome_shown del: run.simps)
       (simp add: handler_defs Shutdown_def poll_thread_def)
qed

text \<open>
  The same dismissal when the window of a Xaml thread refuses to close: the \<open>Closed\<close>
  handler is registered, the callable disables the startup task, deletes the configuration
  file and starts \<open>Shutdown(1)\<close>, which brings the refusing window to the foreground and
  posts no quit message. The main loop is given nothing to return: no exit code results.
\<close>

theorem Closed_without_approval_refusal_counterexample:
  "Closed_handler
     (run [operation_completes, Enable_completes, Window_constructed (Some 5), Main_thread_runs []]
        (Application_ctor (Some ''C:'') False True)) \<noteq> None
   \<and> run [Closed,
          Main_thread_runs
            [\<lparr>thread_id = 0,
              GetCurrentWindow = Some \<lparr>handle = Some 5, page = True, TryClose = False\<rparr>\<rparr>]]
       (run [operation_completes, Enable_completes, Window_constructed (Some 5), Main_thread_runs []]
          (Application_ctor (Some ''C:'') False True)) =
     \<lparr>m_WelcomePage = None, frame = Returned, configure_callback = None,
      Closed_handler = Some True, page_handlers = True, main_queue = [],
      log = [SetPreferredAppMode_AllowDark, Startup_AcquireTask, co_await_operation,
             co_await_Startup_Enable, CreateXamlWindow_WelcomePage, Startup_Disable,
             Config_DeleteConfigFile, Shutdown_called 1, Thread_Lock 0,
             resume_foreground (Thread_dispatcher 0), Window_TryClose (Some 5),
             SetForegroundWindow (Some 5)]\<rparr>
   \<and> PostQuitMessage_calls
       (log (run [Closed,
          Main_thread_runs
            [\<lparr>thread_id = 0,
              GetCurrentWindow = Some \<lparr>handle = Some 5, page = True, TryClose = False\<rparr>\<rparr>]]
       (run [operation_completes, Enable_completes, Window_constructed (Some 5), Main_thread_runs []]
          (Application_ctor (Some ''C:'') False True)))) = []"
  by (simp add: welcome_shown del: run.simps)
     (simp add: handler_defs Shutdown_def poll_thread_def)

end
